theory Spec2Isabelle
  imports Main
begin

section \<open>Unfinalized blocks tracker: the model\<close>

text \<open>
  The class \<open>UnfinalizedBlocksService\<close> keeps the pairs \<open>[blockHeight, blockHash]\<close> of the
  blocks indexed above the finalized height, the finalized header and the last height at
  which the list was checked. Heights are JavaScript numbers that hold block numbers; they
  are integers here. The fields are assigned by \<open>init\<close>; the record describes the service
  after \<open>init\<close>, so the list, the finalized header and the metadata repository are present
  (the \<open>assert\<close> of \<open>setMetadata\<close> on the repository holds), while
  \<open>lastCheckedBlockHeight\<close> is read from the metadata and may be \<open>undefined\<close>.
\<close>

record block_header =
  number :: int
  hash :: string
  parentHash :: string

type_synonym unfinalized_block = "int \<times> string"

text \<open>
  A value stored in the metadata table. The list is stored as \<open>JSON.stringify\<close> of the
  array of pairs; the text is represented by the list it encodes.
\<close>

datatype metadata_value = JsonBlocks "unfinalized_block list" | NumberValue int | NullValue

text \<open>
  \<open>getBlockByHeightOrHash\<close> takes a number or a hash. The chain API is a parameter of
  the model: the answer of the endpoint to a request, \<open>None\<close> when the promise is
  rejected.
\<close>

datatype block_ref = ByHeight int | ByHash string

type_synonym ethereum_api = "block_ref \<Rightarrow> block_header option"

datatype tracker_error = ProcessExit int | RpcRejected block_ref

text \<open>The result of \<open>processUnfinalizedBlocks\<close>: \<open>null\<close>, \<open>undefined\<close> or a height.\<close>

datatype js_height = JsNull | JsUndefined | JsNumber int

record unfinalized_blocks_service =
  unfinalizedBlocks :: "unfinalized_block list"
  finalizedHeader :: block_header
  lastCheckedBlockHeight :: "int option"
  metadataRepo :: "(string \<times> metadata_value) list"

definition METADATA_UNFINALIZED_BLOCKS_KEY :: string where
  "METADATA_UNFINALIZED_BLOCKS_KEY = ''unfinalizedBlocks''"

definition METADATA_LAST_FINALIZED_PROCESSED_KEY :: string where
  "METADATA_LAST_FINALIZED_PROCESSED_KEY = ''lastFinalizedVerifiedHeight''"

text \<open>\<open>metadataRepo.upsert\<close>: the row of the key is replaced, or added when there is none.\<close>

fun upsert ::
  "string \<Rightarrow> metadata_value \<Rightarrow> (string \<times> metadata_value) list \<Rightarrow> (string \<times> metadata_value) list" where
  "upsert k v [] = [(k, v)]"
| "upsert k v ((k', v') # rest) = (if k' = k then (k, v) # rest else (k', v') # upsert k v rest)"

definition setMetadata ::
  "string \<Rightarrow> metadata_value \<Rightarrow> unfinalized_blocks_service \<Rightarrow> unfinalized_blocks_service" where
  "setMetadata key val s = s\<lparr>metadataRepo := upsert key val (metadataRepo s)\<rparr>"

definition saveUnfinalizedBlocks ::
  "unfinalized_block list \<Rightarrow> unfinalized_blocks_service \<Rightarrow> unfinalized_blocks_service" where
  "saveUnfinalizedBlocks blocks s = setMetadata METADATA_UNFINALIZED_BLOCKS_KEY (JsonBlocks blocks) s"

definition saveLastFinalizedVerifiedHeight ::
  "int \<Rightarrow> unfinalized_blocks_service \<Rightarrow> unfinalized_blocks_service" where
  "saveLastFinalizedVerifiedHeight height s =
     setMetadata METADATA_LAST_FINALIZED_PROCESSED_KEY (NumberValue height) s"

definition finalizedBlockNumber :: "unfinalized_blocks_service \<Rightarrow> int" where
  "finalizedBlockNumber s = number (finalizedHeader s)"

text \<open>
  \<open>registerUnfinalizedBlock\<close>: an early return at or below the finalized height,
  \<open>process.exit(1)\<close> when the block does not follow the last record, and otherwise the
  push and the save.
\<close>

definition registerUnfinalizedBlock ::
  "int \<Rightarrow> string \<Rightarrow> unfinalized_blocks_service \<Rightarrow> tracker_error + unfinalized_blocks_service" where
  "registerUnfinalizedBlock blockNumber h s =
     (if blockNumber \<le> finalizedBlockNumber s then Inr s
      else if unfinalizedBlocks s \<noteq> [] \<and> fst (last (unfinalizedBlocks s)) + 1 \<noteq> blockNumber
        then Inl (ProcessExit 1)
      else
        (let s' = s\<lparr>unfinalizedBlocks := unfinalizedBlocks s @ [(blockNumber, h)]\<rparr>
         in Inr (saveUnfinalizedBlocks (unfinalizedBlocks s') s')))"

text \<open>\<open>Array.prototype.findIndex\<close>; the result \<open>-1\<close> is \<open>None\<close>.\<close>

fun findIndex :: "('a \<Rightarrow> bool) \<Rightarrow> 'a list \<Rightarrow> nat option" where
  "findIndex p [] = None"
| "findIndex p (x # xs) =
     (if p x then Some 0 else (case findIndex p xs of None \<Rightarrow> None | Some i \<Rightarrow> Some (Suc i)))"

text \<open>
  \<open>removeFinalized\<close> looks for the record whose height is the given one and keeps
  \<open>slice(index + 1, length)\<close>; when no record has that height the list is left as it is.
\<close>

definition removeFinalized :: "int \<Rightarrow> unfinalized_blocks_service \<Rightarrow> unfinalized_blocks_service" where
  "removeFinalized blockHeight s =
     (case findIndex (\<lambda>(height, _). height = blockHeight) (unfinalizedBlocks s) of
        None \<Rightarrow> s
      | Some index \<Rightarrow> s\<lparr>unfinalizedBlocks := drop (index + 1) (unfinalizedBlocks s)\<rparr>)"

text \<open>
  \<open>deleteFinalizedBlock\<close> removes and saves only when \<open>lastCheckedBlockHeight\<close> is defined
  and below the finalized height; it always records the finalized height as checked.
\<close>

definition deleteFinalizedBlock :: "unfinalized_blocks_service \<Rightarrow> unfinalized_blocks_service" where
  "deleteFinalizedBlock s =
     (let s1 =
        (case lastCheckedBlockHeight s of
           None \<Rightarrow> s
         | Some c \<Rightarrow>
             if c < finalizedBlockNumber s then
               (let s' = removeFinalized (finalizedBlockNumber s) s;
                    s'' = saveLastFinalizedVerifiedHeight (finalizedBlockNumber s') s'
                in saveUnfinalizedBlocks (unfinalizedBlocks s'') s'')
             else s)
      in s1\<lparr>lastCheckedBlockHeight := Some (finalizedBlockNumber s1)\<rparr>)"

definition getClosestRecord :: "int \<Rightarrow> unfinalized_blocks_service \<Rightarrow> unfinalized_block option" where
  "getClosestRecord blockHeight s =
     find (\<lambda>(bestBlockHeight, _). bestBlockHeight \<le> blockHeight) (rev (unfinalizedBlocks s))"

text \<open>
  The \<open>while\<close> loop of \<open>hasForked\<close> follows parent hashes until the header has the wanted
  height. Nothing bounds it when the endpoint answers with headers of other heights, so
  it is a partial function: \<open>None\<close> is the loop that does not end.
\<close>

partial_function (option) walkToHeight ::
  "ethereum_api \<Rightarrow> int \<Rightarrow> block_header \<Rightarrow> (tracker_error + block_header) option" where
  "walkToHeight api blockHeight header =
     (if blockHeight \<noteq> number header then
        (case api (ByHash (parentHash header)) of
           None \<Rightarrow> Some (Inl (RpcRejected (ByHash (parentHash header))))
         | Some parent \<Rightarrow> walkToHeight api blockHeight parent)
      else Some (Inr header))"

declare walkToHeight.simps [code]

definition hasForked ::
  "ethereum_api \<Rightarrow> unfinalized_blocks_service \<Rightarrow> (tracker_error + bool) option" where
  "hasForked api s =
     (case getClosestRecord (finalizedBlockNumber s) s of
        None \<Rightarrow> Some (Inr False)
      | Some (blockHeight, h) \<Rightarrow>
          if blockHeight = finalizedBlockNumber s then Some (Inr (h \<noteq> hash (finalizedHeader s)))
          else
            (case (if number (finalizedHeader s) - blockHeight > 200
                   then (case api (ByHeight blockHeight) of
                           None \<Rightarrow> Some (Inl (RpcRejected (ByHeight blockHeight)))
                         | Some header \<Rightarrow> Some (Inr header))
                   else walkToHeight api blockHeight (finalizedHeader s)) of
               None \<Rightarrow> None
             | Some (Inl e) \<Rightarrow> Some (Inl e)
             | Some (Inr header) \<Rightarrow> Some (Inr (hash header \<noteq> h))))"

text \<open>
  The \<open>for\<close> loop of \<open>getLastCorrectFinalizedBlock\<close> over the reversed records, with the
  header being checked as its state. After a record that does not match, the source
  requests \<open>this.finalizedHeader.parentHash\<close>, the parent of the finalized header, whatever
  the header being checked is.
\<close>

fun matchBackwards ::
  "ethereum_api \<Rightarrow> unfinalized_blocks_service \<Rightarrow> block_header \<Rightarrow> unfinalized_block list
     \<Rightarrow> tracker_error + js_height" where
  "matchBackwards api s checkingHeader [] =
     Inr (case lastCheckedBlockHeight s of None \<Rightarrow> JsUndefined | Some c \<Rightarrow> JsNumber c)"
| "matchBackwards api s checkingHeader ((block, h) # rest) =
     (if h = hash checkingHeader \<or> h = parentHash checkingHeader then Inr (JsNumber block)
      else
        (case api (ByHash (parentHash (finalizedHeader s))) of
           None \<Rightarrow> Inl (RpcRejected (ByHash (parentHash (finalizedHeader s))))
         | Some header \<Rightarrow> matchBackwards api s header rest))"

definition getLastCorrectFinalizedBlock ::
  "ethereum_api \<Rightarrow> unfinalized_blocks_service \<Rightarrow> tracker_error + js_height" where
  "getLastCorrectFinalizedBlock api s =
     (let bestVerifiableBlocks =
            filter (\<lambda>(bestBlockHeight, h). bestBlockHeight \<le> finalizedBlockNumber s)
              (unfinalizedBlocks s)
      in matchBackwards api s (finalizedHeader s) (rev bestVerifiableBlocks))"

text \<open>
  \<open>processUnfinalizedBlocks\<close> returns the result and the service as it is left. The
  outer \<open>option\<close> is \<open>None\<close> when the loop of \<open>hasForked\<close> does not end.
\<close>

definition processUnfinalizedBlocks ::
  "ethereum_api \<Rightarrow> block_header option \<Rightarrow> unfinalized_blocks_service
     \<Rightarrow> (tracker_error + js_height \<times> unfinalized_blocks_service) option" where
  "processUnfinalizedBlocks api block s =
     (case (case block of
              None \<Rightarrow> Inr s
            | Some b \<Rightarrow> registerUnfinalizedBlock (number b) (hash b) s) of
        Inl e \<Rightarrow> Some (Inl e)
      | Inr s1 \<Rightarrow>
          (case hasForked api s1 of
             None \<Rightarrow> None
           | Some (Inl e) \<Rightarrow> Some (Inl e)
           | Some (Inr False) \<Rightarrow> Some (Inr (JsNull, deleteFinalizedBlock s1))
           | Some (Inr True) \<Rightarrow>
               (case getLastCorrectFinalizedBlock api s1 of
                  Inl e \<Rightarrow> Some (Inl e)
                | Inr target \<Rightarrow> Some (Inr (target, s1)))))"

subsection \<open>Example chains\<close>

text \<open>An endpoint that rejects every request.\<close>

definition rejecting_api :: ethereum_api where
  "rejecting_api r = None"

text \<open>
  A chain reorganised three blocks deep: the blocks 98, 99 and 100 were replaced (hashes
  \<open>0xb..\<close>), block 97 is the one the service indexed (\<open>0xa97\<close>).
\<close>

definition canonical_chain :: ethereum_api where
  "canonical_chain r =
     (if r = ByHash ''0xb100'' \<or> r = ByHeight 100
        then Some \<lparr>number = 100, hash = ''0xb100'', parentHash = ''0xb99''\<rparr>
      else if r = ByHash ''0xb99'' \<or> r = ByHeight 99
        then Some \<lparr>number = 99, hash = ''0xb99'', parentHash = ''0xb98''\<rparr>
      else if r = ByHash ''0xb98'' \<or> r = ByHeight 98
        then Some \<lparr>number = 98, hash = ''0xb98'', parentHash = ''0xa97''\<rparr>
      else if r = ByHash ''0xa97'' \<or> r = ByHeight 97
        then Some \<lparr>number = 97, hash = ''0xa97'', parentHash = ''0xa96''\<rparr>
      else None)"

definition forked_service :: unfinalized_blocks_service where
  "forked_service =
     \<lparr>unfinalizedBlocks = [(97, ''0xa97''), (98, ''0xa98''), (99, ''0xa99''), (100, ''0xa100'')],
      finalizedHeader = \<lparr>number = 100, hash = ''0xb100'', parentHash = ''0xb99''\<rparr>,
      lastCheckedBlockHeight = Some 96,
      metadataRepo = []\<rparr>"

definition fresh_service :: unfinalized_blocks_service where
  "fresh_service =
     \<lparr>unfinalizedBlocks = [(6, ''0xa6'')],
      finalizedHeader = \<lparr>number = 6, hash = ''0xa6'', parentHash = ''0xa5''\<rparr>,
      lastCheckedBlockHeight = None,
      metadataRepo = []\<rparr>"

definition checked_service :: unfinalized_blocks_service where
  "checked_service =
     \<lparr>unfinalizedBlocks = [(6, ''0xa6''), (7, ''0xa7'')],
      finalizedHeader = \<lparr>number = 6, hash = ''0xa6'', parentHash = ''0xa5''\<rparr>,
      lastCheckedBlockHeight = Some 5,
      metadataRepo = []\<rparr>"

section \<open>Dictionary v2 query entries: the model\<close>

text \<open>
  \<open>buildDictionaryV2QueryEntry\<close> projects the handler filters of the data sources into the
  conditions sent to the dictionary. A handler filter is a JavaScript object that the
  source casts to the filter type of the handler kind; the record below has the fields
  the source reads (\<open>from\<close>, \<open>to\<close>, \<open>function\<close>, \<open>topics\<close>) and the \<open>modulo\<close> of a block
  filter. An absent field is \<open>None\<close>; \<open>to\<close> may also be \<open>null\<close>.
\<close>

datatype handler_kind = Block | Call | Event | Custom string

datatype filter_to = ToUndefined | ToNull | ToAddress string

record eth_filter =
  flt_from :: "string option"
  flt_to :: filter_to
  flt_function :: "string option"
  flt_topics :: "string option list option"
  flt_modulo :: "int option"

record subql_handler =
  kind :: handler_kind
  handler :: string
  handler_filter :: "eth_filter option"

record processor_options =
  abi :: "string option"
  address :: "string option"

record ds_mapping =
  handlers :: "subql_handler list"

record grouped_ds =
  options :: "processor_options option"
  groupedOptions :: "processor_options list option"
  mapping :: ds_mapping

record tx_conditions =
  cond_to :: "string option list option"
  cond_from :: "string list option"
  cond_function :: "string list option"

record log_conditions =
  cond_address :: "string list option"
  topics0 :: "string list option"
  topics1 :: "string list option"
  topics2 :: "string list option"
  topics3 :: "string list option"

record query_entry =
  logs :: "log_conditions list option"
  transactions :: "tx_conditions list option"

text \<open>The one message of the logger that a property below mentions.\<close>

datatype log_message = WarnToConflictsWithAddress

text \<open>
  \<open>String.prototype.toLowerCase\<close> on the characters of addresses: the letters \<open>A\<close> to
  \<open>Z\<close> are mapped to \<open>a\<close> to \<open>z\<close>.
\<close>

definition lower_char :: "char \<Rightarrow> char" where
  "lower_char c =
     (case map_of (zip ''ABCDEFGHIJKLMNOPQRSTUVWXYZ'' ''abcdefghijklmnopqrstuvwxyz'') c of
        None \<Rightarrow> c
      | Some l \<Rightarrow> l)"

definition toLowerCase :: "string \<Rightarrow> string" where
  "toLowerCase s = map lower_char s"

text \<open>A string is truthy when it is present and not empty.\<close>

definition truthy_string :: "string option \<Rightarrow> bool" where
  "truthy_string v = (case v of None \<Rightarrow> False | Some s \<Rightarrow> s \<noteq> [])"

text \<open>Every JavaScript object is truthy, an empty array included.\<close>

definition truthy_array :: "'a list \<Rightarrow> bool" where
  "truthy_array xs = True"

text \<open>
  \<open>extractOptionAddresses\<close> takes the options of one data source or the array of grouped
  options; \<open>queryAddressLimit\<close> is the command line value \<open>query-address-limit\<close>, a
  parameter. Only the single form lowercases the address.
\<close>

datatype ds_options_arg = Single "processor_options option" | Grouped "processor_options list"

definition extractOptionAddresses :: "int \<Rightarrow> ds_options_arg \<Rightarrow> string list" where
  "extractOptionAddresses queryAddressLimit dsOptions =
     (case dsOptions of
        Grouped opts \<Rightarrow>
          (let addresses = map the (filter truthy_string (map address opts))
           in if addresses \<noteq> [] \<and> int (length addresses) \<le> queryAddressLimit
              then addresses else [])
      | Single opt \<Rightarrow>
          (case opt of
             None \<Rightarrow> []
           | Some ops \<Rightarrow>
               (case address ops of
                  None \<Rightarrow> []
                | Some a \<Rightarrow> if a \<noteq> [] then [toLowerCase a] else [])))"

text \<open>
  \<open>callFilterToDictionaryCondition\<close> returns the condition and the warnings it logs.
  \<open>functionToSighash\<close> is imported from a module outside the sources and is a parameter.
  The source tests \<open>!optionsAddresses\<close> on the array returned by
  \<open>extractOptionAddresses\<close>.
\<close>

definition callFilterToDictionaryCondition ::
  "(string \<Rightarrow> string) \<Rightarrow> int \<Rightarrow> eth_filter \<Rightarrow> processor_options option
     \<Rightarrow> tx_conditions \<times> log_message list" where
  "callFilterToDictionaryCondition functionToSighash queryAddressLimit flt dsOptions =
     (let fromArray =
            (case flt_from flt of
               None \<Rightarrow> []
             | Some f \<Rightarrow> if f \<noteq> [] then [toLowerCase f] else []);
          optionsAddresses = extractOptionAddresses queryAddressLimit (Single dsOptions);
          (toArray, warnings) =
            (if \<not> truthy_array optionsAddresses then
               (case flt_to flt of
                  ToAddress t \<Rightarrow> if t \<noteq> [] then ([Some (toLowerCase t)], []) else ([], [])
                | ToNull \<Rightarrow> ([None], [])
                | ToUndefined \<Rightarrow> ([], []))
             else if truthy_array optionsAddresses \<and>
                     (case flt_to flt of
                        ToAddress t \<Rightarrow> t \<noteq> []
                      | ToNull \<Rightarrow> True
                      | ToUndefined \<Rightarrow> False)
               then ([], [WarnToConflictsWithAddress])
             else ([], []));
          funcArray =
            (case flt_function flt of
               None \<Rightarrow> []
             | Some f \<Rightarrow> if f \<noteq> [] then [functionToSighash f] else [])
      in (\<lparr>cond_to = (if toArray \<noteq> [] then Some toArray else None),
           cond_from = (if fromArray \<noteq> [] then Some fromArray else None),
           cond_function = (if funcArray \<noteq> [] then Some funcArray else None)\<rparr>,
          warnings))"

text \<open>
  The loop of \<open>eventFilterToDictionaryCondition\<close> over the first four topics; the field
  \<open>topics<i>\<close> is read and written by index. \<open>eventToTopic\<close> is a parameter.
\<close>

fun get_topics :: "nat \<Rightarrow> log_conditions \<Rightarrow> string list option" where
  "get_topics i lc =
     (if i = 0 then topics0 lc else if i = 1 then topics1 lc
      else if i = 2 then topics2 lc else topics3 lc)"

fun set_topics :: "nat \<Rightarrow> string list \<Rightarrow> log_conditions \<Rightarrow> log_conditions" where
  "set_topics i v lc =
     (if i = 0 then lc\<lparr>topics0 := Some v\<rparr> else if i = 1 then lc\<lparr>topics1 := Some v\<rparr>
      else if i = 2 then lc\<lparr>topics2 := Some v\<rparr> else lc\<lparr>topics3 := Some v\<rparr>)"

fun topicsLoop ::
  "(string \<Rightarrow> string) \<Rightarrow> nat \<Rightarrow> string option list \<Rightarrow> log_conditions \<Rightarrow> log_conditions" where
  "topicsLoop eventToTopic i [] lc = lc"
| "topicsLoop eventToTopic i (topic # rest) lc =
     (if i < 4 then
        topicsLoop eventToTopic (Suc i) rest
          (if \<not> truthy_string topic then lc
           else
             (let lc1 = (case get_topics i lc of None \<Rightarrow> set_topics i [] lc | Some _ \<Rightarrow> lc)
              in if topic = Some ''!null'' then set_topics i [] lc1
                 else set_topics i
                        ((case get_topics i lc1 of None \<Rightarrow> [] | Some ts \<Rightarrow> ts)
                           @ [eventToTopic (case topic of None \<Rightarrow> [] | Some t \<Rightarrow> t)])
                        lc1))
      else lc)"

definition eventFilterToDictionaryCondition ::
  "(string \<Rightarrow> string) \<Rightarrow> int \<Rightarrow> eth_filter \<Rightarrow> ds_options_arg \<Rightarrow> log_conditions" where
  "eventFilterToDictionaryCondition eventToTopic queryAddressLimit flt dsOptions =
     (let logConditions =
            \<lparr>cond_address = Some (extractOptionAddresses queryAddressLimit dsOptions),
             topics0 = None, topics1 = None, topics2 = None, topics3 = None\<rparr>
      in case flt_topics flt of
           None \<Rightarrow> logConditions
         | Some topics \<Rightarrow> topicsLoop eventToTopic 0 topics logConditions)"

text \<open>
  The nested loops of \<open>buildDictionaryV2QueryEntry\<close>. A \<open>return\<close> inside them leaves both
  loops with the conditions collected so far (\<open>Return\<close>); the two \<open>delete\<close> statements
  after the loops run only when the loops end (\<open>Continue\<close>).
\<close>

datatype 'a flow = Continue 'a | Return 'a

fun handlersLoop ::
  "(string \<Rightarrow> string) \<Rightarrow> (string \<Rightarrow> string) \<Rightarrow> int \<Rightarrow> grouped_ds \<Rightarrow> subql_handler list
     \<Rightarrow> log_conditions list \<times> tx_conditions list
     \<Rightarrow> (log_conditions list \<times> tx_conditions list) flow" where
  "handlersLoop eventToTopic functionToSighash lim ds [] acc = Continue acc"
| "handlersLoop eventToTopic functionToSighash lim ds (h # hs) (lgs, txs) =
     (case handler_filter h of
        None \<Rightarrow> Return (lgs, txs)
      | Some flt \<Rightarrow>
          (case kind h of
             Block \<Rightarrow> Return (lgs, txs)
           | Call \<Rightarrow>
               if flt_from flt \<noteq> None \<or> flt_to flt \<noteq> ToUndefined \<or> truthy_string (flt_function flt)
               then handlersLoop eventToTopic functionToSighash lim ds hs
                      (lgs, txs @ [fst (callFilterToDictionaryCondition functionToSighash lim flt (options ds))])
               else handlersLoop eventToTopic functionToSighash lim ds hs (lgs, txs)
           | Event \<Rightarrow>
               (case groupedOptions ds of
                  Some grouped \<Rightarrow>
                    handlersLoop eventToTopic functionToSighash lim ds hs
                      (lgs @ [eventFilterToDictionaryCondition eventToTopic lim flt (Grouped grouped)], txs)
                | None \<Rightarrow>
                    if truthy_string (case options ds of None \<Rightarrow> None | Some ops \<Rightarrow> address ops)
                       \<or> flt_topics flt \<noteq> None
                    then handlersLoop eventToTopic functionToSighash lim ds hs
                      (lgs @ [eventFilterToDictionaryCondition eventToTopic lim flt (Single (options ds))], txs)
                    else handlersLoop eventToTopic functionToSighash lim ds hs (lgs, txs))
           | Custom _ \<Rightarrow> handlersLoop eventToTopic functionToSighash lim ds hs (lgs, txs)))"

fun dataSourcesLoop ::
  "(string \<Rightarrow> string) \<Rightarrow> (string \<Rightarrow> string) \<Rightarrow> int \<Rightarrow> grouped_ds list
     \<Rightarrow> log_conditions list \<times> tx_conditions list
     \<Rightarrow> (log_conditions list \<times> tx_conditions list) flow" where
  "dataSourcesLoop eventToTopic functionToSighash lim [] acc = Continue acc"
| "dataSourcesLoop eventToTopic functionToSighash lim (ds # rest) acc =
     (case handlersLoop eventToTopic functionToSighash lim ds (handlers (mapping ds)) acc of
        Return r \<Rightarrow> Return r
      | Continue acc' \<Rightarrow> dataSourcesLoop eventToTopic functionToSighash lim rest acc')"

definition buildDictionaryV2QueryEntry ::
  "(string \<Rightarrow> string) \<Rightarrow> (string \<Rightarrow> string) \<Rightarrow> int \<Rightarrow> grouped_ds list \<Rightarrow> query_entry" where
  "buildDictionaryV2QueryEntry eventToTopic functionToSighash lim dataSources =
     (case dataSourcesLoop eventToTopic functionToSighash lim dataSources ([], []) of
        Return (lgs, txs) \<Rightarrow> \<lparr>logs = Some lgs, transactions = Some txs\<rparr>
      | Continue (lgs, txs) \<Rightarrow>
          \<lparr>logs = (if lgs = [] then None else Some lgs),
           transactions = (if txs = [] then None else Some txs)\<rparr>)"

subsection \<open>Example data sources\<close>

definition no_filter :: eth_filter where
  "no_filter = \<lparr>flt_from = None, flt_to = ToUndefined, flt_function = None, flt_topics = None,
     flt_modulo = None\<rparr>"

text \<open>An event handler followed by a block handler with a \<open>modulo\<close> filter.\<close>

definition transfer_then_block_ds :: grouped_ds where
  "transfer_then_block_ds =
     \<lparr>options = Some \<lparr>abi = Some ''erc20'', address = None\<rparr>,
      groupedOptions = None,
      mapping = \<lparr>handlers =
        [\<lparr>kind = Event, handler = ''handleLog'',
          handler_filter = Some (no_filter\<lparr>flt_topics := Some [Some ''Transfer(address,address,uint256)'']\<rparr>)\<rparr>,
         \<lparr>kind = Block, handler = ''handleBlock'',
          handler_filter = Some (no_filter\<lparr>flt_modulo := Some 5\<rparr>)\<rparr>]\<rparr>\<rparr>"

text \<open>The data source of the test \<open>should unique QueryEntry for duplicate dataSources\<close>.\<close>

definition duplicate_handlers_ds :: grouped_ds where
  "duplicate_handlers_ds =
     \<lparr>options = Some \<lparr>abi = Some ''erc20'',
                       address = Some ''0x7ceB23fD6bC0adD59E62ac25578270cFf1b9f619''\<rparr>,
      groupedOptions = None,
      mapping = \<lparr>handlers =
        [\<lparr>kind = Event, handler = ''handleLog'',
          handler_filter = Some (no_filter\<lparr>flt_topics := Some [Some ''Transfer(address, address, uint256)'']\<rparr>)\<rparr>,
         \<lparr>kind = Event, handler = ''handleLogSame'',
          handler_filter = Some (no_filter\<lparr>flt_topics := Some [Some ''Transfer(address, address, uint256)'']\<rparr>)\<rparr>,
         \<lparr>kind = Call, handler = ''handleTx'',
          handler_filter = Some (no_filter\<lparr>flt_function := Some ''setminimumStakingAmount(uint256 amount)'',
                                             flt_from := Some ''mockAddress''\<rparr>)\<rparr>,
         \<lparr>kind = Call, handler = ''handleTxSame'',
          handler_filter = Some (no_filter\<lparr>flt_function := Some ''setminimumStakingAmount(uint256 amount)'',
                                             flt_from := Some ''mockAddress''\<rparr>)\<rparr>]\<rparr>\<rparr>"

section \<open>Batched JSON-RPC provider: the model\<close>




record rpc_error =
  error_code :: int
  error_message :: string



text \<open>How the promise of a request ends.\<close>

datatype settlement = Resolved "string option" | Rejected string






section \<open>Dictionary v1: the model\<close>

text \<open>
  \<open>DictionaryV1.getQueryEndBlock\<close> reads the node configuration and the dictionary
  metadata. The getter \<open>metadata\<close> throws when \<open>_metadata\<close> has not been set by
  \<open>initMetadata\<close>.
\<close>

record node_config =
  dictionaryQuerySize :: int

record dictionary_v1_metadata =
  lastProcessedHeight :: int
  genesisHash :: string
  startHeight :: "int option"

record dictionary_v1 =
  nodeConfig :: node_config
  metadata_field :: "dictionary_v1_metadata option"

datatype dictionary_error = MetadataNotInitialised

definition metadata :: "dictionary_v1 \<Rightarrow> dictionary_error + dictionary_v1_metadata" where
  "metadata d = (case metadata_field d of None \<Rightarrow> Inl MetadataNotInitialised | Some m \<Rightarrow> Inr m)"

text \<open>\<open>Math.min\<close> of three numbers.\<close>

definition Math_min3 :: "int \<Rightarrow> int \<Rightarrow> int \<Rightarrow> int" where
  "Math_min3 a b c = (if a \<le> b then (if a \<le> c then a else c) else (if b \<le> c then b else c))"

definition getQueryEndBlock :: "dictionary_v1 \<Rightarrow> int \<Rightarrow> int \<Rightarrow> dictionary_error + int" where
  "getQueryEndBlock d startBlockHeight apiFinalizedHeight =
     (case metadata d of
        Inl e \<Rightarrow> Inl e
      | Inr m \<Rightarrow>
          Inr (Math_min3 (startBlockHeight + dictionaryQuerySize (nodeConfig d))
                 apiFinalizedHeight (lastProcessedHeight m)))"

section \<open>HTTP fetch with redirects and throttling: the model\<close>

text \<open>
  The attempt loop of \<open>_fetchData\<close> (\<open>runningFetch\<close>). The network is a parameter: what
  \<open>getUrl\<close> gives at the attempt for the URL, a response or an exception that may carry a
  response. The wall-clock timeout that races the loop, the stalls between attempts and
  the \<open>data:\<close> URLs are not modelled; the settings that the function reads from the
  connection are the record \<open>fetch_options\<close>.
\<close>

datatype http_method = GET | POST

record get_url_response =
  statusCode :: int
  headers :: "(string \<times> string) list"
  body :: string

datatype get_url_result = Responded get_url_response | Threw "get_url_response option"

type_synonym network = "nat \<Rightarrow> string \<Rightarrow> get_url_result"

text \<open>\<open>processFunc\<close> returns a value or throws, with or without \<open>throttleRetry\<close>.\<close>

datatype process_result = ProcessReturned string | ProcessThrew bool

text \<open>
  How the promise of \<open>_fetchData\<close> ends: with the body of the response (\<open>null\<close> for a
  304 that is allowed), with the value of \<open>processFunc\<close>, with \<open>undefined\<close>, or rejected.
\<close>

datatype fetch_error = InvalidArgument | TypeError | ServerError string

datatype fetch_result =
    ReturnedBody "string option"
  | ReturnedValue string
  | ReturnedUndefined
  | Rejected fetch_error

record fetch_options =
  attemptLimit :: nat
  request_method :: http_method
  allow304 :: bool
  errorPassThrough :: bool
  throttleCallback :: "(nat \<Rightarrow> string \<Rightarrow> bool) option"
  processFunc :: "(string option \<Rightarrow> get_url_response \<Rightarrow> process_result) option"

text \<open>
  \<open>assert\<close> is imported from \<open>ethers/lib.commonjs/utils\<close>: \<open>assert(check, message, code,
  info)\<close> throws when \<open>check\<close> is falsy and returns nothing otherwise. Every call of it
  in the loop passes an object literal as \<open>check\<close>, and an object is truthy.
\<close>

definition ethers_assert :: "bool \<Rightarrow> fetch_error \<Rightarrow> fetch_error option" where
  "ethers_assert check err = (if check then None else Some err)"

definition object_literal :: bool where
  "object_literal = True"

text \<open>
  What one iteration of the loop does: \<open>continue\<close> with a new URL, \<open>continue\<close> with the
  same URL, or leave the function.
\<close>

datatype attempt_flow = Redirect string | Retry | Done fetch_result

definition header :: "get_url_response \<Rightarrow> string \<Rightarrow> string option" where
  "header response name = map_of (headers response) name"

definition tryAgain :: "fetch_options \<Rightarrow> nat \<Rightarrow> string \<Rightarrow> bool" where
  "tryAgain opts attempt url =
     (case throttleCallback opts of None \<Rightarrow> True | Some callback \<Rightarrow> callback attempt url)"

text \<open>
  The part of the loop body after the \<open>try\<close> statement, for the response of the request
  or of the exception caught. Without a response, \<open>response.body\<close> is a \<open>TypeError\<close>.
  After a \<open>processFunc\<close> that threw and is not retried, control reaches
  \<open>return body\<close>.
\<close>

definition afterResponse ::
  "fetch_options \<Rightarrow> nat \<Rightarrow> string \<Rightarrow> get_url_response option \<Rightarrow> attempt_flow" where
  "afterResponse opts attempt url resp =
     (case resp of
        None \<Rightarrow>
          (case ethers_assert object_literal (ServerError ''missing response'') of
             Some e \<Rightarrow> Done (Rejected e)
           | None \<Rightarrow> Done (Rejected TypeError))
      | Some response \<Rightarrow>
          (let body' = (if allow304 opts \<and> statusCode response = 304 then None
                        else Some (body response));
               bad = (if \<not> (allow304 opts \<and> statusCode response = 304) \<and> \<not> errorPassThrough opts
                         \<and> (statusCode response < 200 \<or> statusCode response \<ge> 300)
                      then ethers_assert object_literal (ServerError ''bad response'')
                      else None)
           in case bad of
                Some e \<Rightarrow> Done (Rejected e)
              | None \<Rightarrow>
                  (case processFunc opts of
                     None \<Rightarrow> Done (ReturnedBody body')
                   | Some f \<Rightarrow>
                       (case f body' response of
                          ProcessReturned v \<Rightarrow> Done (ReturnedValue v)
                        | ProcessThrew throttleRetry \<Rightarrow>
                            if throttleRetry \<and> attempt < attemptLimit opts \<and> tryAgain opts attempt url
                            then Retry
                            else
                              (case ethers_assert object_literal
                                      (ServerError ''processing response error'') of
                                 Some e \<Rightarrow> Done (Rejected e)
                               | None \<Rightarrow> Done (ReturnedBody body'))))))"

text \<open>
  The \<open>try\<close> statement: the redirect on 301 and 302, the throttle on 429 (on the last
  attempt the error thrown carries the response and is caught), and the \<open>catch\<close>
  clause.
\<close>

definition fetchAttempt :: "fetch_options \<Rightarrow> network \<Rightarrow> nat \<Rightarrow> string \<Rightarrow> attempt_flow" where
  "fetchAttempt opts net attempt url =
     (case net attempt url of
        Threw resp \<Rightarrow> afterResponse opts attempt url resp
      | Responded response \<Rightarrow>
          if statusCode response = 301 \<or> statusCode response = 302 then
            (let location = (case header response ''location'' of None \<Rightarrow> [] | Some l \<Rightarrow> l)
             in if request_method opts = GET \<and> take 6 location = ''https:''
                then Redirect location
                else afterResponse opts attempt url (Some response))
          else if statusCode response = 429 then
            (if int attempt = int (attemptLimit opts) - 1
             then afterResponse opts attempt url (Some response)
             else if tryAgain opts attempt url then Retry
             else afterResponse opts attempt url (Some response))
          else afterResponse opts attempt url (Some response))"

text \<open>
  The loop \<open>for (attempt = 0; attempt < attemptLimit; attempt++)\<close>, by recursion on the
  attempts that remain, and the \<open>return assert(...)\<close> after it. The result comes with the
  URLs requested, in order.
\<close>

fun attemptsFrom ::
  "fetch_options \<Rightarrow> network \<Rightarrow> nat \<Rightarrow> nat \<Rightarrow> string \<Rightarrow> string list \<times> fetch_result" where
  "attemptsFrom opts net 0 attempt url =
     ([], (case ethers_assert object_literal (ServerError ''failed response'') of
             Some e \<Rightarrow> Rejected e
           | None \<Rightarrow> ReturnedUndefined))"
| "attemptsFrom opts net (Suc remaining) attempt url =
     (case fetchAttempt opts net attempt url of
        Redirect location \<Rightarrow>
          (let (requested, result) = attemptsFrom opts net remaining (Suc attempt) location
           in (url # requested, result))
      | Retry \<Rightarrow>
          (let (requested, result) = attemptsFrom opts net remaining (Suc attempt) url
           in (url # requested, result))
      | Done result \<Rightarrow> ([url], result))"

definition runningFetch :: "fetch_options \<Rightarrow> network \<Rightarrow> string \<Rightarrow> string list \<times> fetch_result" where
  "runningFetch opts net url = attemptsFrom opts net (attemptLimit opts) 0 url"

text \<open>
  \<open>_fetchData\<close> checks \<open>attemptLimit > 0\<close> with \<open>assertArgument\<close> before the loop starts.
\<close>

definition fetchData :: "fetch_options \<Rightarrow> network \<Rightarrow> string \<Rightarrow> string list \<times> fetch_result" where
  "fetchData opts net url =
     (if \<not> (attemptLimit opts > 0) then ([], Rejected InvalidArgument)
      else runningFetch opts net url)"

subsection \<open>An example network\<close>

text \<open>A server that redirects twice, each time to an \<open>https:\<close> location.\<close>

definition default_get :: fetch_options where
  "default_get = \<lparr>attemptLimit = 12, request_method = GET, allow304 = False,
     errorPassThrough = False, throttleCallback = None, processFunc = None\<rparr>"

definition two_redirects :: network where
  "two_redirects attempt url =
     (if url = ''http://rpc.example/'' then
        Responded \<lparr>statusCode = 301, headers = [(''location'', ''https://a.example/'')], body = []\<rparr>
      else if url = ''https://a.example/'' then
        Responded \<lparr>statusCode = 302, headers = [(''location'', ''https://b.example/'')], body = []\<rparr>
      else if url = ''https://b.example/'' then
        Responded \<lparr>statusCode = 200, headers = [], body = ''ok''\<rparr>
      else Threw None)"

section \<open>ABI parsing of logs and transactions: the model\<close>














subsection \<open>An example library and data sources\<close>









section \<open>Unfinalized blocks tracker: properties\<close>

subsection \<open>Auxiliary facts\<close>

lemma findIndex_fst_drop_above:
  "sorted_wrt (<) (map fst xs) \<Longrightarrow> findIndex (\<lambda>p. fst p = F) xs = Some i
     \<Longrightarrow> y \<in> set (drop (i + 1) xs) \<Longrightarrow> F < fst y"
proof (induction xs arbitrary: i)
  case Nil
  then show ?case by simp
next
  case (Cons a xs)
  show ?case
  proof (cases "fst a = F")
    case True
    with Cons.prems have "i = 0" by simp
    with Cons.prems True show ?thesis by auto
  next
    case False
    with Cons.prems obtain j where j: "findIndex (\<lambda>p. fst p = F) xs = Some j" "i = Suc j"
      by (auto split: option.splits)
    with Cons.prems Cons.IH[of j] show ?thesis by simp
  qed
qed

lemma findIndex_drop_above:
  assumes "sorted_wrt (<) (map fst xs)" "findIndex (\<lambda>(height, _). height = F) xs = Some i"
    "(h, x) \<in> set (drop (i + 1) xs)"
  shows "F < h"
  using findIndex_fst_drop_above[of xs F i "(h, x)"] assms by (simp add: case_prod_unfold)

lemma findIndex_None_iff: "findIndex p xs = None \<longleftrightarrow> (\<forall>x \<in> set xs. \<not> p x)"
  by (induction xs) (auto split: option.splits)

lemma matchBackwards_not_null: "matchBackwards api s c rs \<noteq> Inr JsNull"
  by (induction rs arbitrary: c) (auto split: option.splits if_splits)

lemma upsert_lookup: "map_of (upsert k v m) k = Some v"
  by (induction m) auto

lemma register_cases:
  assumes "registerUnfinalizedBlock n h s = Inr s1"
  shows "finalizedHeader s1 = finalizedHeader s \<and> lastCheckedBlockHeight s1 = lastCheckedBlockHeight s \<and>
     (unfinalizedBlocks s1 = unfinalizedBlocks s \<or>
      (unfinalizedBlocks s1 = unfinalizedBlocks s @ [(n, h)] \<and> finalizedBlockNumber s < n \<and>
       (unfinalizedBlocks s = [] \<or> fst (last (unfinalizedBlocks s)) + 1 = n)))"
  using assms
  by (auto simp: registerUnfinalizedBlock_def saveUnfinalizedBlocks_def setMetadata_def Let_def
       finalizedBlockNumber_def split: if_splits)

lemma sorted_le_last:
  "sorted_wrt (<) (map fst xs) \<Longrightarrow> y \<in> set xs \<Longrightarrow> fst y \<le> (fst (last xs) :: int)"
  by (induction xs) (auto simp: less_imp_le)

lemma sorted_snoc_succ:
  assumes "sorted_wrt (<) (map fst xs)" "xs = [] \<or> fst (last xs) + 1 = (n::int)"
  shows "sorted_wrt (<) (map fst (xs @ [(n, h)]))"
proof (cases "xs = []")
  case True
  then show ?thesis by simp
next
  case False
  with assms have l: "fst (last xs) < n" by auto
  have "\<forall>y \<in> set xs. fst y < n"
    using sorted_le_last[OF assms(1)] l by fastforce
  with assms(1) show ?thesis by (auto simp: sorted_wrt_append)
qed

lemma deleteFinalizedBlock_above:
  assumes "sorted_wrt (<) (map fst (unfinalizedBlocks s))"
    and "(\<forall>(h, x) \<in> set (unfinalizedBlocks s). finalizedBlockNumber s < h) \<or>
         ((\<exists>x. (finalizedBlockNumber s, x) \<in> set (unfinalizedBlocks s)) \<and>
          (\<exists>c. lastCheckedBlockHeight s = Some c \<and> c < finalizedBlockNumber s))"
  shows "finalizedBlockNumber (deleteFinalizedBlock s) = finalizedBlockNumber s \<and>
         (\<forall>(h, x) \<in> set (unfinalizedBlocks (deleteFinalizedBlock s)). finalizedBlockNumber s < h)"
proof -
  let ?F = "finalizedBlockNumber s"
  have fin: "finalizedBlockNumber (deleteFinalizedBlock s) = ?F"
    by (simp add: deleteFinalizedBlock_def removeFinalized_def saveUnfinalizedBlocks_def
        saveLastFinalizedVerifiedHeight_def setMetadata_def Let_def finalizedBlockNumber_def
        split: option.splits)
  have sub: "set (unfinalizedBlocks (deleteFinalizedBlock s)) \<subseteq> set (unfinalizedBlocks s)"
    by (auto simp: deleteFinalizedBlock_def removeFinalized_def saveUnfinalizedBlocks_def
        saveLastFinalizedVerifiedHeight_def setMetadata_def Let_def finalizedBlockNumber_def
        split: option.splits dest: in_set_dropD)
  from assms(2) show ?thesis
  proof
    assume "\<forall>(h, x) \<in> set (unfinalizedBlocks s). ?F < h"
    with sub fin show ?thesis by blast
  next
    assume a: "(\<exists>x. (?F, x) \<in> set (unfinalizedBlocks s)) \<and>
          (\<exists>c. lastCheckedBlockHeight s = Some c \<and> c < ?F)"
    then obtain c where c: "lastCheckedBlockHeight s = Some c" "c < ?F" by blast
    from a have "findIndex (\<lambda>(height, _). height = ?F) (unfinalizedBlocks s) \<noteq> None"
      by (auto simp: findIndex_None_iff)
    then obtain i where i: "findIndex (\<lambda>(height, _). height = ?F) (unfinalizedBlocks s) = Some i"
      by blast
    with c have "unfinalizedBlocks (deleteFinalizedBlock s) = drop (i + 1) (unfinalizedBlocks s)"
      by (simp add: deleteFinalizedBlock_def removeFinalized_def saveUnfinalizedBlocks_def
        saveLastFinalizedVerifiedHeight_def setMetadata_def Let_def)
    with findIndex_drop_above[OF assms(1) i] fin show ?thesis by auto
  qed
qed


subsection \<open>Claim C1\<close>

text \<open>
  Claim C1 says that after every call of \<open>processUnfinalizedBlocks\<close> that returns
  \<open>null\<close> no record has a height at or below the finalized height. The code removes
  records only behind the guard of \<open>deleteFinalizedBlock\<close>: here the service has no
  \<open>lastCheckedBlockHeight\<close> yet, block 7 is registered, the record of height 6 has the
  hash of the finalized header 6, the call returns \<open>null\<close>, and the record of height 6
  stays in the list.
\<close>

theorem processUnfinalizedBlocks_null_keeps_record:
  "processUnfinalizedBlocks rejecting_api
      (Some \<lparr>number = 7, hash = ''0xa7'', parentHash = ''0xa6''\<rparr>) fresh_service
   = Some (Inr (JsNull,
       \<lparr>unfinalizedBlocks = [(6, ''0xa6''), (7, ''0xa7'')],
        finalizedHeader = \<lparr>number = 6, hash = ''0xa6'', parentHash = ''0xa5''\<rparr>,
        lastCheckedBlockHeight = Some 6,
        metadataRepo = [(''unfinalizedBlocks'', JsonBlocks [(6, ''0xa6''), (7, ''0xa7'')])]\<rparr>))"
  by (simp add: processUnfinalizedBlocks_def registerUnfinalizedBlock_def hasForked_def
      getClosestRecord_def deleteFinalizedBlock_def finalizedBlockNumber_def fresh_service_def
      saveUnfinalizedBlocks_def setMetadata_def METADATA_UNFINALIZED_BLOCKS_KEY_def)

text \<open>
  Claim C1, amended: when the heights of the list increase strictly and either no record
  is at or below the finalized height F, or a record has height F and
  \<open>lastCheckedBlockHeight\<close> is defined and below F, then after a call of
  \<open>processUnfinalizedBlocks\<close> that returns \<open>null\<close> the finalized height is still F and
  every record has a height above F.
\<close>

theorem processUnfinalizedBlocks_null_clears_finalized:
  assumes "processUnfinalizedBlocks api block s = Some (Inr (JsNull, s'))"
    and "sorted_wrt (<) (map fst (unfinalizedBlocks s))"
    and "(\<forall>(h, x) \<in> set (unfinalizedBlocks s). finalizedBlockNumber s < h) \<or>
         ((\<exists>x. (finalizedBlockNumber s, x) \<in> set (unfinalizedBlocks s)) \<and>
          (\<exists>c. lastCheckedBlockHeight s = Some c \<and> c < finalizedBlockNumber s))"
  shows "finalizedBlockNumber s' = finalizedBlockNumber s \<and>
         (\<forall>(h, x) \<in> set (unfinalizedBlocks s'). finalizedBlockNumber s < h)"
proof -
  obtain s1 where reg: "(case block of None \<Rightarrow> Inr s
            | Some b \<Rightarrow> registerUnfinalizedBlock (number b) (hash b) s) = Inr s1"
    and del: "s' = deleteFinalizedBlock s1"
    using assms(1) matchBackwards_not_null
    by (auto simp: processUnfinalizedBlocks_def getLastCorrectFinalizedBlock_def Let_def
        split: sum.splits option.splits bool.splits)
  have props: "finalizedHeader s1 = finalizedHeader s \<and> lastCheckedBlockHeight s1 = lastCheckedBlockHeight s \<and>
     (unfinalizedBlocks s1 = unfinalizedBlocks s \<or>
      (\<exists>n h. unfinalizedBlocks s1 = unfinalizedBlocks s @ [(n, h)] \<and> finalizedBlockNumber s < n \<and>
       (unfinalizedBlocks s = [] \<or> fst (last (unfinalizedBlocks s)) + 1 = n)))"
  proof (cases block)
    case None
    with reg show ?thesis by simp
  next
    case (Some b)
    with reg register_cases[of "number b" "hash b" s s1] show ?thesis by auto
  qed
  then have F: "finalizedBlockNumber s1 = finalizedBlockNumber s"
    by (simp add: finalizedBlockNumber_def)
  have sorted1: "sorted_wrt (<) (map fst (unfinalizedBlocks s1))"
  proof -
    from props consider "unfinalizedBlocks s1 = unfinalizedBlocks s"
      | n h where "unfinalizedBlocks s1 = unfinalizedBlocks s @ [(n, h)]"
          "unfinalizedBlocks s = [] \<or> fst (last (unfinalizedBlocks s)) + 1 = n"
      by blast
    then show ?thesis
    proof cases
      case 1
      with assms(2) show ?thesis by simp
    next
      case 2
      with sorted_snoc_succ[OF assms(2), of n h] show ?thesis by simp
    qed
  qed
  from props assms(3) F have hyp1:
    "(\<forall>(h, x) \<in> set (unfinalizedBlocks s1). finalizedBlockNumber s1 < h) \<or>
         ((\<exists>x. (finalizedBlockNumber s1, x) \<in> set (unfinalizedBlocks s1)) \<and>
          (\<exists>c. lastCheckedBlockHeight s1 = Some c \<and> c < finalizedBlockNumber s1))"
    by auto
  from deleteFinalizedBlock_above[OF sorted1 hyp1] del F show ?thesis by simp
qed

text \<open>
  The theorem at a service with records 6 and 7, finalized header 6 and last checked
  height 5: the call returns \<open>null\<close> and only record 7 is left.
\<close>

theorem processUnfinalizedBlocks_null_clears_finalized_witness:
  "processUnfinalizedBlocks rejecting_api None checked_service
     = Some (Inr (JsNull,
         \<lparr>unfinalizedBlocks = [(7, ''0xa7'')],
          finalizedHeader = \<lparr>number = 6, hash = ''0xa6'', parentHash = ''0xa5''\<rparr>,
          lastCheckedBlockHeight = Some 6,
          metadataRepo = [(''lastFinalizedVerifiedHeight'', NumberValue 6),
                          (''unfinalizedBlocks'', JsonBlocks [(7, ''0xa7'')])]\<rparr>))
   \<and> sorted_wrt (<) (map fst (unfinalizedBlocks checked_service))
   \<and> (6, ''0xa6'') \<in> set (unfinalizedBlocks checked_service)
   \<and> finalizedBlockNumber checked_service = 6
   \<and> lastCheckedBlockHeight checked_service = Some 5
   \<and> list_all (\<lambda>(h, x). 6 < h) [(7 :: int, ''0xa7'')]"
proof -
  have run: "processUnfinalizedBlocks rejecting_api None checked_service
     = Some (Inr (JsNull,
         \<lparr>unfinalizedBlocks = [(7, ''0xa7'')],
          finalizedHeader = \<lparr>number = 6, hash = ''0xa6'', parentHash = ''0xa5''\<rparr>,
          lastCheckedBlockHeight = Some 6,
          metadataRepo = [(''lastFinalizedVerifiedHeight'', NumberValue 6),
                          (''unfinalizedBlocks'', JsonBlocks [(7, ''0xa7'')])]\<rparr>))"
    by (simp add: processUnfinalizedBlocks_def hasForked_def getClosestRecord_def
        deleteFinalizedBlock_def removeFinalized_def finalizedBlockNumber_def
        checked_service_def saveUnfinalizedBlocks_def saveLastFinalizedVerifiedHeight_def
        setMetadata_def METADATA_UNFINALIZED_BLOCKS_KEY_def
        METADATA_LAST_FINALIZED_PROCESSED_KEY_def)
  have srt: "sorted_wrt (<) (map fst (unfinalizedBlocks checked_service))"
    by (simp add: checked_service_def)
  have hyp: "(\<forall>(h, x) \<in> set (unfinalizedBlocks checked_service).
                finalizedBlockNumber checked_service < h) \<or>
         ((\<exists>x. (finalizedBlockNumber checked_service, x) \<in> set (unfinalizedBlocks checked_service)) \<and>
          (\<exists>c. lastCheckedBlockHeight checked_service = Some c \<and>
                c < finalizedBlockNumber checked_service))"
    by (simp add: checked_service_def finalizedBlockNumber_def)
  from processUnfinalizedBlocks_null_clears_finalized[OF run srt hyp] run srt
  show ?thesis
    by (simp add: checked_service_def finalizedBlockNumber_def)
qed

subsection \<open>Claim C2\<close>

text \<open>
  Claim C2 says that after a fork \<open>getLastCorrectFinalizedBlock\<close> compares each record,
  from the highest down, with the canonical header of its height and returns the height
  of the first record that matches. On the chain reorganised three blocks deep the fork
  is detected, the record of height 97 has the hash of the canonical block 97, and the
  code returns the last checked height 96: every request after the first record asks for
  the parent of the finalized header, block 99, so the records 98 and 97 are compared
  with block 99 again.
\<close>

theorem getLastCorrectFinalizedBlock_misses_matching_record:
  "hasForked canonical_chain forked_service = Some (Inr True)
   \<and> processUnfinalizedBlocks canonical_chain None forked_service
       = Some (Inr (JsNumber 96, forked_service))
   \<and> canonical_chain (ByHeight 97)
       = Some \<lparr>number = 97, hash = ''0xa97'', parentHash = ''0xa96''\<rparr>
   \<and> (97, ''0xa97'') \<in> set (unfinalizedBlocks forked_service)"
  by (simp add: processUnfinalizedBlocks_def hasForked_def getClosestRecord_def
      getLastCorrectFinalizedBlock_def finalizedBlockNumber_def forked_service_def
      canonical_chain_def)

subsection \<open>Claim C3\<close>

text \<open>
  Claim C3: a call of \<open>registerUnfinalizedBlock\<close> with a height at or below the finalized
  height returns and leaves the service, and so the list, as it was; above it, when the
  list is not empty and the height is not the last recorded height plus one, the process
  exits with code 1; otherwise the pair of the height and the hash is appended to the
  list and the new list is stored under the key \<open>unfinalizedBlocks\<close>, the finalized
  header and the last checked height being unchanged.
\<close>

theorem registerUnfinalizedBlock_cases:
  "(blockNumber \<le> finalizedBlockNumber s \<longrightarrow>
      registerUnfinalizedBlock blockNumber h s = Inr s)
   \<and> (finalizedBlockNumber s < blockNumber \<and> unfinalizedBlocks s \<noteq> []
        \<and> fst (last (unfinalizedBlocks s)) + 1 \<noteq> blockNumber \<longrightarrow>
      registerUnfinalizedBlock blockNumber h s = Inl (ProcessExit 1))
   \<and> (finalizedBlockNumber s < blockNumber
        \<and> (unfinalizedBlocks s = [] \<or> fst (last (unfinalizedBlocks s)) + 1 = blockNumber) \<longrightarrow>
      (\<exists>s'. registerUnfinalizedBlock blockNumber h s = Inr s'
         \<and> unfinalizedBlocks s' = unfinalizedBlocks s @ [(blockNumber, h)]
         \<and> map_of (metadataRepo s') METADATA_UNFINALIZED_BLOCKS_KEY
             = Some (JsonBlocks (unfinalizedBlocks s @ [(blockNumber, h)]))
         \<and> finalizedHeader s' = finalizedHeader s
         \<and> lastCheckedBlockHeight s' = lastCheckedBlockHeight s))"
proof (intro conjI impI)
  assume "blockNumber \<le> finalizedBlockNumber s"
  then show "registerUnfinalizedBlock blockNumber h s = Inr s"
    by (simp add: registerUnfinalizedBlock_def)
next
  assume "finalizedBlockNumber s < blockNumber \<and> unfinalizedBlocks s \<noteq> []
        \<and> fst (last (unfinalizedBlocks s)) + 1 \<noteq> blockNumber"
  then show "registerUnfinalizedBlock blockNumber h s = Inl (ProcessExit 1)"
    by (simp add: registerUnfinalizedBlock_def)
next
  assume a: "finalizedBlockNumber s < blockNumber
        \<and> (unfinalizedBlocks s = [] \<or> fst (last (unfinalizedBlocks s)) + 1 = blockNumber)"
  let ?s' = "saveUnfinalizedBlocks (unfinalizedBlocks s @ [(blockNumber, h)])
               (s\<lparr>unfinalizedBlocks := unfinalizedBlocks s @ [(blockNumber, h)]\<rparr>)"
  from a have "registerUnfinalizedBlock blockNumber h s = Inr ?s'"
    by (auto simp: registerUnfinalizedBlock_def Let_def)
  moreover have "unfinalizedBlocks ?s' = unfinalizedBlocks s @ [(blockNumber, h)]"
    and "finalizedHeader ?s' = finalizedHeader s"
    and "lastCheckedBlockHeight ?s' = lastCheckedBlockHeight s"
    by (simp_all add: saveUnfinalizedBlocks_def setMetadata_def)
  moreover have "map_of (metadataRepo ?s') METADATA_UNFINALIZED_BLOCKS_KEY
             = Some (JsonBlocks (unfinalizedBlocks s @ [(blockNumber, h)]))"
    by (simp add: saveUnfinalizedBlocks_def setMetadata_def upsert_lookup)
  ultimately show "\<exists>s'. registerUnfinalizedBlock blockNumber h s = Inr s'
         \<and> unfinalizedBlocks s' = unfinalizedBlocks s @ [(blockNumber, h)]
         \<and> map_of (metadataRepo s') METADATA_UNFINALIZED_BLOCKS_KEY
             = Some (JsonBlocks (unfinalizedBlocks s @ [(blockNumber, h)]))
         \<and> finalizedHeader s' = finalizedHeader s
         \<and> lastCheckedBlockHeight s' = lastCheckedBlockHeight s"
    by blast
qed

text \<open>
  The three cases at the service with records 6 and 7 and finalized height 6: block 5 is
  dropped, block 9 stops the process, block 8 is appended and stored.
\<close>

theorem registerUnfinalizedBlock_cases_witness:
  "(5 :: int) \<le> finalizedBlockNumber checked_service
   \<and> registerUnfinalizedBlock 5 ''0xa5'' checked_service = Inr checked_service
   \<and> finalizedBlockNumber checked_service < 9
   \<and> unfinalizedBlocks checked_service \<noteq> []
   \<and> fst (last (unfinalizedBlocks checked_service)) + 1 \<noteq> 9
   \<and> registerUnfinalizedBlock 9 ''0xa9'' checked_service = Inl (ProcessExit 1)
   \<and> fst (last (unfinalizedBlocks checked_service)) + 1 = 8
   \<and> registerUnfinalizedBlock 8 ''0xa8'' checked_service
       = Inr (checked_service
           \<lparr>unfinalizedBlocks := [(6, ''0xa6''), (7, ''0xa7''), (8, ''0xa8'')],
            metadataRepo := [(''unfinalizedBlocks'',
               JsonBlocks [(6, ''0xa6''), (7, ''0xa7''), (8, ''0xa8'')])]\<rparr>)"
proof -
  have h1: "(5 :: int) \<le> finalizedBlockNumber checked_service"
    by (simp add: checked_service_def finalizedBlockNumber_def)
  have h2: "finalizedBlockNumber checked_service < 9 \<and> unfinalizedBlocks checked_service \<noteq> []
        \<and> fst (last (unfinalizedBlocks checked_service)) + 1 \<noteq> 9"
    by (simp add: checked_service_def finalizedBlockNumber_def)
  have h3: "finalizedBlockNumber checked_service < 8
        \<and> (unfinalizedBlocks checked_service = []
            \<or> fst (last (unfinalizedBlocks checked_service)) + 1 = 8)"
    by (simp add: checked_service_def finalizedBlockNumber_def)
  from registerUnfinalizedBlock_cases[of 5 checked_service "''0xa5''"] h1
  have r1: "registerUnfinalizedBlock 5 ''0xa5'' checked_service = Inr checked_service"
    by blast
  from registerUnfinalizedBlock_cases[of 9 checked_service "''0xa9''"] h2
  have r2: "registerUnfinalizedBlock 9 ''0xa9'' checked_service = Inl (ProcessExit 1)"
    by blast
  from registerUnfinalizedBlock_cases[of 8 checked_service "''0xa8''"] h3
  obtain s' where r3: "registerUnfinalizedBlock 8 ''0xa8'' checked_service = Inr s'"
    by blast
  have r3': "registerUnfinalizedBlock 8 ''0xa8'' checked_service
       = Inr (checked_service
           \<lparr>unfinalizedBlocks := [(6, ''0xa6''), (7, ''0xa7''), (8, ''0xa8'')],
            metadataRepo := [(''unfinalizedBlocks'',
               JsonBlocks [(6, ''0xa6''), (7, ''0xa7''), (8, ''0xa8'')])]\<rparr>)"
    by (simp add: registerUnfinalizedBlock_def checked_service_def finalizedBlockNumber_def
        saveUnfinalizedBlocks_def setMetadata_def METADATA_UNFINALIZED_BLOCKS_KEY_def)
  from h1 h2 h3 r1 r2 r3 r3' show ?thesis
    by (simp add: checked_service_def)
qed

section \<open>Dictionary v2 query entries: properties\<close>

subsection \<open>Auxiliary facts\<close>

lemma toLowerCase_erc20_address:
  "toLowerCase ''0x7ceB23fD6bC0adD59E62ac25578270cFf1b9f619''
     = ''0x7ceb23fd6bc0add59e62ac25578270cff1b9f619''"
  by code_simp

lemma toLowerCase_mockAddress: "toLowerCase ''mockAddress'' = ''mockaddress''"
  by code_simp

subsection \<open>Claim C5\<close>

text \<open>
  Claim C5 says that a list of data sources with a block handler gives the empty query
  entry, whatever handlers come before the block handler. In the code the \<open>return\<close> at
  a block handler hands back the conditions collected so far: for an event handler
  followed by a block handler the entry holds the log condition of the event handler.
\<close>

theorem buildDictionaryV2QueryEntry_block_after_event:
  "buildDictionaryV2QueryEntry eventToTopic functionToSighash lim [transfer_then_block_ds]
     = \<lparr>logs = Some [\<lparr>cond_address = Some [],
                       topics0 = Some [eventToTopic ''Transfer(address,address,uint256)''],
                       topics1 = None, topics2 = None, topics3 = None\<rparr>],
        transactions = Some []\<rparr>"
  by (simp add: buildDictionaryV2QueryEntry_def transfer_then_block_ds_def no_filter_def
      eventFilterToDictionaryCondition_def extractOptionAddresses_def truthy_string_def)

subsection \<open>Claim C6\<close>

text \<open>
  Claim C6 says that for a call handler the \<open>address\<close> of the data source options is
  used as the \<open>to\<close> condition. The code never copies it there: with the address \<open>0xAB\<close>
  in the options and a filter on the function only, the condition has no \<open>to\<close>.
\<close>

theorem callFilterToDictionaryCondition_address_not_in_to:
  "callFilterToDictionaryCondition (\<lambda>f. f) 100
      (no_filter\<lparr>flt_function := Some ''approve(address,uint256)''\<rparr>)
      (Some \<lparr>abi = Some ''erc20'', address = Some ''0xAB''\<rparr>)
   = (\<lparr>cond_to = None, cond_from = None,
        cond_function = Some [''approve(address,uint256)'']\<rparr>, [])"
  by (simp add: callFilterToDictionaryCondition_def no_filter_def truthy_array_def)

text \<open>
  Claim C6, amended: when the data source options have a non-empty \<open>address\<close>, the
  condition built for a call handler has no \<open>to\<close> entry; when the filter specifies \<open>to\<close>
  (\<open>null\<close> or a non-empty string) its value is ignored and the warning about the conflict
  is logged, and no warning is logged otherwise.
\<close>

theorem callFilterToDictionaryCondition_with_options_address:
  assumes "address ops = Some a" and "a \<noteq> []"
  shows "cond_to (fst (callFilterToDictionaryCondition functionToSighash lim flt (Some ops))) = None
     \<and> snd (callFilterToDictionaryCondition functionToSighash lim flt (Some ops))
         = (if flt_to flt = ToNull \<or> (\<exists>t. flt_to flt = ToAddress t \<and> t \<noteq> [])
            then [WarnToConflictsWithAddress] else [])"
  by (cases "flt_to flt")
     (simp_all add: callFilterToDictionaryCondition_def truthy_array_def Let_def)

text \<open>
  The theorem at the options address \<open>0xAB\<close> and a filter with \<open>to = 0xCD\<close> and
  \<open>from = 0xEF\<close>: only \<open>from\<close> reaches the condition, and the warning is logged.
\<close>

theorem callFilterToDictionaryCondition_with_options_address_witness:
  "address \<lparr>abi = Some ''erc20'', address = Some ''0xAB''\<rparr> = Some ''0xAB''
   \<and> ''0xAB'' \<noteq> []
   \<and> callFilterToDictionaryCondition (\<lambda>f. f) 100
        (no_filter\<lparr>flt_to := ToAddress ''0xCD'', flt_from := Some ''0xEF''\<rparr>)
        (Some \<lparr>abi = Some ''erc20'', address = Some ''0xAB''\<rparr>)
      = (\<lparr>cond_to = None, cond_from = Some [''0xef''], cond_function = None\<rparr>,
         [WarnToConflictsWithAddress])"
proof -
  have a: "address \<lparr>abi = Some ''erc20'', address = Some ''0xAB''\<rparr> = Some ''0xAB''" by simp
  have b: "''0xAB'' \<noteq> []" by simp
  from callFilterToDictionaryCondition_with_options_address[OF a b, of "\<lambda>f. f" 100
      "no_filter\<lparr>flt_to := ToAddress ''0xCD'', flt_from := Some ''0xEF''\<rparr>"]
  show ?thesis
    by (simp add: callFilterToDictionaryCondition_def no_filter_def truthy_array_def
        toLowerCase_def lower_char_def)
qed

subsection \<open>Claim C7\<close>

text \<open>
  Claim C7 says that the query entry has no duplicate condition. The code appends one
  condition per handler and never removes a duplicate (the step is a \<open>TODO\<close> in the
  source): on the data source of its own test, with two equal event handlers and two
  equal call handlers, the entry holds each condition twice, where the test expects it
  once.
\<close>

theorem buildDictionaryV2QueryEntry_keeps_duplicates:
  "buildDictionaryV2QueryEntry eventToTopic functionToSighash lim [duplicate_handlers_ds]
     = \<lparr>logs = Some
          [\<lparr>cond_address = Some [''0x7ceb23fd6bc0add59e62ac25578270cff1b9f619''],
            topics0 = Some [eventToTopic ''Transfer(address, address, uint256)''],
            topics1 = None, topics2 = None, topics3 = None\<rparr>,
           \<lparr>cond_address = Some [''0x7ceb23fd6bc0add59e62ac25578270cff1b9f619''],
            topics0 = Some [eventToTopic ''Transfer(address, address, uint256)''],
            topics1 = None, topics2 = None, topics3 = None\<rparr>],
        transactions = Some
          [\<lparr>cond_to = None, cond_from = Some [''mockaddress''],
            cond_function = Some [functionToSighash ''setminimumStakingAmount(uint256 amount)'']\<rparr>,
           \<lparr>cond_to = None, cond_from = Some [''mockaddress''],
            cond_function = Some [functionToSighash ''setminimumStakingAmount(uint256 amount)'']\<rparr>]\<rparr>"
  by (simp add: buildDictionaryV2QueryEntry_def duplicate_handlers_ds_def no_filter_def
      eventFilterToDictionaryCondition_def callFilterToDictionaryCondition_def
      extractOptionAddresses_def truthy_string_def truthy_array_def
      toLowerCase_erc20_address toLowerCase_mockAddress)

section \<open>Batched JSON-RPC provider: properties\<close>

subsection \<open>Auxiliary facts\<close>






subsection \<open>Claim C4\<close>




section \<open>Dictionary v1: properties\<close>

subsection \<open>Claim C8\<close>

text \<open>
  Claim C8: when the dictionary metadata is initialised, \<open>getQueryEndBlock\<close> of a start
  height \<open>s\<close> and an API finalized height \<open>f\<close> returns the least of
  \<open>s + dictionaryQuerySize\<close>, \<open>f\<close> and \<open>metadata.lastProcessedHeight\<close>.
\<close>

theorem getQueryEndBlock_min:
  assumes "metadata_field d = Some m"
  shows "getQueryEndBlock d s f
           = Inr (Min {s + dictionaryQuerySize (nodeConfig d), f, lastProcessedHeight m})"
  using assms by (simp add: getQueryEndBlock_def metadata_def Math_min3_def min_def)

text \<open>
  With query size 10000 and last processed height 7000, the query from 500 under the
  finalized height 9000 ends at 7000.
\<close>

theorem getQueryEndBlock_min_witness:
  "metadata_field \<lparr>nodeConfig = \<lparr>dictionaryQuerySize = 10000\<rparr>,
                   metadata_field = Some \<lparr>lastProcessedHeight = 7000, genesisHash = ''0x1'',
                                           startHeight = Some 1\<rparr>\<rparr>
     = Some \<lparr>lastProcessedHeight = 7000, genesisHash = ''0x1'', startHeight = Some 1\<rparr>
   \<and> getQueryEndBlock \<lparr>nodeConfig = \<lparr>dictionaryQuerySize = 10000\<rparr>,
                   metadata_field = Some \<lparr>lastProcessedHeight = 7000, genesisHash = ''0x1'',
                                           startHeight = Some 1\<rparr>\<rparr> 500 9000 = Inr 7000"
  using getQueryEndBlock_min[of "\<lparr>nodeConfig = \<lparr>dictionaryQuerySize = 10000\<rparr>,
                   metadata_field = Some \<lparr>lastProcessedHeight = 7000, genesisHash = ''0x1'',
                                           startHeight = Some 1\<rparr>\<rparr>"
           "\<lparr>lastProcessedHeight = 7000, genesisHash = ''0x1'', startHeight = Some 1\<rparr>" 500 9000]
  by simp

section \<open>HTTP fetch with redirects and throttling: properties\<close>

subsection \<open>Auxiliary facts\<close>

lemma afterResponse_not_redirect: "afterResponse opts attempt url resp \<noteq> Redirect loc"
  by (auto simp: afterResponse_def Let_def ethers_assert_def
      split: option.splits process_result.splits)

lemma fetchAttempt_Redirect_iff:
  "fetchAttempt opts net attempt url = Redirect loc \<longleftrightarrow>
      (\<exists>r. net attempt url = Responded r \<and> (statusCode r = 301 \<or> statusCode r = 302)
           \<and> request_method opts = GET \<and> header r ''location'' = Some loc
           \<and> take 6 loc = ''https:'')"
proof (cases "net attempt url")
  case (Threw resp)
  then show ?thesis by (simp add: fetchAttempt_def afterResponse_not_redirect)
next
  case (Responded r)
  then show ?thesis
    by (cases "header r ''location''")
       (auto simp: fetchAttempt_def Let_def afterResponse_not_redirect)
qed

lemma length_attemptsFrom: "length (fst (attemptsFrom opts net n attempt url)) \<le> n"
proof (induction n arbitrary: attempt url)
  case 0
  show ?case by simp
next
  case (Suc n)
  show ?case
  proof (cases "fetchAttempt opts net attempt url")
    case (Redirect location)
    with Suc[of "Suc attempt" location] show ?thesis by (simp add: case_prod_beta)
  next
    case Retry
    with Suc[of "Suc attempt" url] show ?thesis by (simp add: case_prod_beta)
  next
    case (Done result)
    then show ?thesis by simp
  qed
qed

lemma attemptsFrom_Suc_hd:
  "\<exists>rest. fst (attemptsFrom opts net (Suc n) attempt url) = url # rest"
  by (cases "fetchAttempt opts net attempt url") (simp_all add: case_prod_beta)

text \<open>
  What follows request \<open>i\<close> of the loop started at attempt \<open>a\<close>: after a redirect or a
  retry the next request, made when an attempt remains, goes to the location or to the
  same URL; after anything else the request is the last one.
\<close>

lemma attemptsFrom_step:
  assumes "i < length (fst (attemptsFrom opts net n a url))"
  shows "(case fetchAttempt opts net (a + i) (fst (attemptsFrom opts net n a url) ! i) of
            Redirect loc \<Rightarrow>
              (Suc i < n \<longrightarrow> Suc i < length (fst (attemptsFrom opts net n a url)))
              \<and> (Suc i < length (fst (attemptsFrom opts net n a url)) \<longrightarrow>
                   fst (attemptsFrom opts net n a url) ! Suc i = loc)
          | Retry \<Rightarrow>
              (Suc i < n \<longrightarrow> Suc i < length (fst (attemptsFrom opts net n a url)))
              \<and> (Suc i < length (fst (attemptsFrom opts net n a url)) \<longrightarrow>
                   fst (attemptsFrom opts net n a url) ! Suc i
                     = fst (attemptsFrom opts net n a url) ! i)
          | Done result \<Rightarrow> Suc i = length (fst (attemptsFrom opts net n a url)))"
  using assms
proof (induction n arbitrary: a url i)
  case 0
  then show ?case by simp
next
  case (Suc n)
  show ?case
  proof (cases i)
    case 0
    show ?thesis
    proof (cases "fetchAttempt opts net a url")
      case (Redirect loc)
      show ?thesis
      proof (cases n)
        case 0
        with Redirect \<open>i = 0\<close> show ?thesis by simp
      next
        case (Suc m)
        obtain rest where "fst (attemptsFrom opts net (Suc m) (Suc a) loc) = loc # rest"
          using attemptsFrom_Suc_hd by blast
        with Redirect \<open>i = 0\<close> Suc show ?thesis by (simp add: case_prod_beta)
      qed
    next
      case Retry
      show ?thesis
      proof (cases n)
        case 0
        with Retry \<open>i = 0\<close> show ?thesis by simp
      next
        case (Suc m)
        obtain rest where "fst (attemptsFrom opts net (Suc m) (Suc a) url) = url # rest"
          using attemptsFrom_Suc_hd by blast
        with Retry \<open>i = 0\<close> Suc show ?thesis by (simp add: case_prod_beta)
      qed
    next
      case (Done result)
      with \<open>i = 0\<close> show ?thesis by simp
    qed
  next
    case (Suc j)
    show ?thesis
    proof (cases "fetchAttempt opts net a url")
      case (Redirect loc)
      with Suc.prems Suc have j: "j < length (fst (attemptsFrom opts net n (Suc a) loc))"
        by (simp add: case_prod_beta)
      from Suc.IH[OF j] Redirect Suc show ?thesis
        by (simp add: case_prod_beta split: attempt_flow.splits)
    next
      case Retry
      with Suc.prems Suc have j: "j < length (fst (attemptsFrom opts net n (Suc a) url))"
        by (simp add: case_prod_beta)
      from Suc.IH[OF j] Retry Suc show ?thesis
        by (simp add: case_prod_beta split: attempt_flow.splits)
    next
      case (Done result)
      with Suc.prems Suc show ?thesis by simp
    qed
  qed
qed

subsection \<open>Claim C9\<close>

text \<open>
  Claim C9 says that a call follows a redirect at most once. The loop follows every
  301 or 302 answer to a GET whose location starts with \<open>https:\<close>, each at the cost of
  one attempt: here the first URL redirects to a second, the second to a third, and the
  call requests all three and returns the body of the third.
\<close>

theorem fetchData_follows_two_redirects:
  "fetchData default_get two_redirects ''http://rpc.example/''
     = ([''http://rpc.example/'', ''https://a.example/'', ''https://b.example/''],
        ReturnedBody (Some ''ok''))"
  by (simp add: fetchData_def runningFetch_def default_get_def two_redirects_def fetchAttempt_def
      afterResponse_def header_def ethers_assert_def object_literal_def eval_nat_numeral)

text \<open>
  Claim C9, amended. Let \<open>reqs\<close> be the URLs that a call requests, in order, request
  \<open>i\<close> being answered by the network at attempt \<open>i\<close>. The call makes at most
  \<open>attemptLimit\<close> requests and the first goes to the URL of the connection. When the
  answer to request \<open>i\<close> has status 301 or 302, the method is GET and the \<open>location\<close>
  header starts with \<open>https:\<close>, the redirect is followed: a next request is made
  whenever an attempt remains, and it goes to that location. The URL changes from one
  request to the next only in that way, so a redirect of another method or to another
  kind of location is not followed.
\<close>

theorem fetchData_redirect_rule:
  assumes "reqs = fst (fetchData opts net url)" and "i < length reqs"
  shows "length reqs \<le> attemptLimit opts \<and> reqs ! 0 = url
    \<and> (\<forall>r loc. net i (reqs ! i) = Responded r \<and> (statusCode r = 301 \<or> statusCode r = 302)
           \<and> request_method opts = GET \<and> header r ''location'' = Some loc
           \<and> take 6 loc = ''https:'' \<longrightarrow>
         (Suc i < attemptLimit opts \<longrightarrow> Suc i < length reqs)
         \<and> (Suc i < length reqs \<longrightarrow> reqs ! Suc i = loc))
    \<and> (Suc i < length reqs \<and> reqs ! Suc i \<noteq> reqs ! i \<longrightarrow>
         (\<exists>r. net i (reqs ! i) = Responded r \<and> (statusCode r = 301 \<or> statusCode r = 302)
            \<and> request_method opts = GET \<and> header r ''location'' = Some (reqs ! Suc i)
            \<and> take 6 (reqs ! Suc i) = ''https:''))"
proof -
  from assms have pos: "attemptLimit opts > 0"
    by (auto simp: fetchData_def split: if_splits)
  with assms(1) have reqs: "reqs = fst (attemptsFrom opts net (attemptLimit opts) 0 url)"
    by (simp add: fetchData_def runningFetch_def)
  have len: "length reqs \<le> attemptLimit opts"
    unfolding reqs by (rule length_attemptsFrom)
  from pos obtain m where m: "attemptLimit opts = Suc m" by (cases "attemptLimit opts") auto
  have first: "reqs ! 0 = url"
    using attemptsFrom_Suc_hd[of opts net m 0 url] by (auto simp: reqs m)
  from assms(2) have i: "i < length (fst (attemptsFrom opts net (attemptLimit opts) 0 url))"
    by (simp add: reqs)
  note step = attemptsFrom_step[OF i, folded reqs, simplified]
  have followed: "\<forall>r loc. net i (reqs ! i) = Responded r \<and> (statusCode r = 301 \<or> statusCode r = 302)
           \<and> request_method opts = GET \<and> header r ''location'' = Some loc
           \<and> take 6 loc = ''https:'' \<longrightarrow>
         (Suc i < attemptLimit opts \<longrightarrow> Suc i < length reqs)
         \<and> (Suc i < length reqs \<longrightarrow> reqs ! Suc i = loc)"
  proof (intro allI impI)
    fix r loc
    assume "net i (reqs ! i) = Responded r \<and> (statusCode r = 301 \<or> statusCode r = 302)
           \<and> request_method opts = GET \<and> header r ''location'' = Some loc
           \<and> take 6 loc = ''https:''"
    then have "fetchAttempt opts net i (reqs ! i) = Redirect loc"
      by (subst fetchAttempt_Redirect_iff) blast
    with step show "(Suc i < attemptLimit opts \<longrightarrow> Suc i < length reqs)
         \<and> (Suc i < length reqs \<longrightarrow> reqs ! Suc i = loc)"
      by simp
  qed
  have changed: "Suc i < length reqs \<and> reqs ! Suc i \<noteq> reqs ! i \<longrightarrow>
         (\<exists>r. net i (reqs ! i) = Responded r \<and> (statusCode r = 301 \<or> statusCode r = 302)
            \<and> request_method opts = GET \<and> header r ''location'' = Some (reqs ! Suc i)
            \<and> take 6 (reqs ! Suc i) = ''https:'')"
  proof
    assume a: "Suc i < length reqs \<and> reqs ! Suc i \<noteq> reqs ! i"
    with step have "fetchAttempt opts net i (reqs ! i) = Redirect (reqs ! Suc i)"
      by (cases "fetchAttempt opts net i (reqs ! i)") auto
    then show "\<exists>r. net i (reqs ! i) = Responded r \<and> (statusCode r = 301 \<or> statusCode r = 302)
            \<and> request_method opts = GET \<and> header r ''location'' = Some (reqs ! Suc i)
            \<and> take 6 (reqs ! Suc i) = ''https:''"
      by (simp only: fetchAttempt_Redirect_iff)
  qed
  from len first followed changed show ?thesis by blast
qed

text \<open>
  The theorem on the server that redirects twice, at the first request: the three URLs
  are requested in order, the answer to the first request is a 301 to
  \<open>https://a.example/\<close>, and the second request goes there. The same server is asked
  once when the method is POST.
\<close>

theorem fetchData_redirect_rule_witness:
  "fst (fetchData default_get two_redirects ''http://rpc.example/'')
     = [''http://rpc.example/'', ''https://a.example/'', ''https://b.example/'']
   \<and> (0 :: nat) < length [''http://rpc.example/'', ''https://a.example/'', ''https://b.example/'']
   \<and> two_redirects 0 ''http://rpc.example/''
       = Responded \<lparr>statusCode = 301, headers = [(''location'', ''https://a.example/'')],
                     body = []\<rparr>
   \<and> request_method default_get = GET
   \<and> Suc 0 < attemptLimit default_get
   \<and> [''http://rpc.example/'', ''https://a.example/'', ''https://b.example/''] ! Suc 0
       = ''https://a.example/''
   \<and> length [''http://rpc.example/'', ''https://a.example/'', ''https://b.example/'']
       \<le> attemptLimit default_get
   \<and> fst (fetchData (default_get\<lparr>request_method := POST\<rparr>) two_redirects ''http://rpc.example/'')
       = [''http://rpc.example/'']"
proof -
  have run: "fst (fetchData default_get two_redirects ''http://rpc.example/'')
     = [''http://rpc.example/'', ''https://a.example/'', ''https://b.example/'']"
    by (simp add: fetchData_def runningFetch_def default_get_def two_redirects_def
        fetchAttempt_def afterResponse_def header_def ethers_assert_def object_literal_def
        eval_nat_numeral)
  have post: "fst (fetchData (default_get\<lparr>request_method := POST\<rparr>) two_redirects
                 ''http://rpc.example/'') = [''http://rpc.example/'']"
    by (simp add: fetchData_def runningFetch_def default_get_def two_redirects_def
        fetchAttempt_def afterResponse_def header_def ethers_assert_def object_literal_def
        eval_nat_numeral)
  have pos: "(0 :: nat) < length [''http://rpc.example/'', ''https://a.example/'', ''https://b.example/'']"
    by simp
  from fetchData_redirect_rule[OF run[symmetric] pos] run post show ?thesis
    by (simp add: default_get_def two_redirects_def header_def)
qed

section \<open>ABI parsing of logs and transactions: properties\<close>

subsection \<open>Claim C10\<close>



end
